theory Spec2Isabelle
  imports Complex_Main "HOL-Library.Word"
begin

section \<open>Python values\<close>

text \<open>
  A Python \<open>str\<close> is a sequence of Unicode code points, a \<open>bytes\<close> object a sequence
  of octets. String literals of the source are ASCII; \<open>lit\<close> turns an Isabelle literal
  into the code points of the Python literal.
\<close>

type_synonym codepoint = nat
type_synonym pystr = "codepoint list"
type_synonym byte = "8 word"
type_synonym pybytes = "byte list"

definition lit :: "string \<Rightarrow> pystr" where
  "lit s = map of_char s"

text \<open>
  \<open>str.isspace\<close> for one code point: the characters CPython lists as whitespace
  (\<open>_PyUnicode_IsWhitespace\<close>).
\<close>

definition isspace :: "codepoint \<Rightarrow> bool" where
  "isspace c \<longleftrightarrow>
     (0x09 \<le> c \<and> c \<le> 0x0D) \<or> (0x1C \<le> c \<and> c \<le> 0x20) \<or> c = 0x85 \<or> c = 0xA0 \<or>
     c = 0x1680 \<or> (0x2000 \<le> c \<and> c \<le> 0x200A) \<or> c = 0x2028 \<or> c = 0x2029 \<or>
     c = 0x202F \<or> c = 0x205F \<or> c = 0x3000"

text \<open>\<open>s.strip()\<close>: whitespace removed at both ends.\<close>

definition strip :: "pystr \<Rightarrow> pystr" where
  "strip s = rev (dropWhile isspace (rev (dropWhile isspace s)))"

text \<open>Truth value of an \<open>Optional[str]\<close>: \<open>None\<close> and \<open>""\<close> are false.\<close>

fun truthy :: "pystr option \<Rightarrow> bool" where
  "truthy None = False"
| "truthy (Some s) = (s \<noteq> [])"

text \<open>\<open>s or None\<close> for a string \<open>s\<close>.\<close>

definition or_None :: "pystr \<Rightarrow> pystr option" where
  "or_None s = (if s \<noteq> [] then Some s else None)"

text \<open>\<open>x or ""\<close> for an \<open>Optional[str]\<close> \<open>x\<close>.\<close>

fun or_empty :: "pystr option \<Rightarrow> pystr" where
  "or_empty None = []"
| "or_empty (Some s) = (if s \<noteq> [] then s else [])"

section \<open>Paper geometry\<close>

text \<open>
  \<open>normalize_paper(paper_choice, custom_w, custom_h)\<close> returns the triple
  \<open>(format, width, height)\<close>.
\<close>

definition normalize_paper ::
  "pystr \<Rightarrow> pystr option \<Rightarrow> pystr option \<Rightarrow> pystr option \<times> pystr option \<times> pystr option" where
  "normalize_paper paper_choice custom_w custom_h =
     (if paper_choice = lit ''Custom'' then
        (let width = or_None (strip (or_empty custom_w));
             height = or_None (strip (or_empty custom_h))
         in (None, width, height))
      else (Some paper_choice, None, None))"

section \<open>The arguments of \<open>page.pdf\<close>\<close>

text \<open>
  The values stored in the \<open>pdf_args\<close> dictionary: booleans, the scale (a float that is
  only passed through), strings, and the margins dictionary (its items in insertion
  order).
\<close>

datatype pdf_value =
    PBool bool
  | PFloat real
  | PStr pystr
  | PDict "(string \<times> pystr) list"

type_synonym pdf_dict = "string \<rightharpoonup> pdf_value"

text \<open>
  The dictionary \<open>render_pdf\<close> assembles between the style override and the call of
  \<open>page.pdf\<close>: six keys are always set, the templates and the geometry keys only under
  the source's \<open>if\<close>s.
\<close>

text \<open>\<open>if x: d[k] = x\<close> for an \<open>Optional[str]\<close> \<open>x\<close>.\<close>

fun set_if :: "string \<Rightarrow> pystr option \<Rightarrow> pdf_dict \<Rightarrow> pdf_dict" where
  "set_if k None d = d"
| "set_if k (Some s) d = (if s \<noteq> [] then d(k \<mapsto> PStr s) else d)"

definition pdf_args ::
  "pystr option \<Rightarrow> pystr option \<Rightarrow> pystr option \<Rightarrow> (string \<times> pystr) list \<Rightarrow> bool \<Rightarrow> bool \<Rightarrow>
   real \<Rightarrow> pystr option \<Rightarrow> pystr option \<Rightarrow> bool \<Rightarrow> pdf_dict" where
  "pdf_args format_name width height margins landscape print_background scale
      header_template footer_template prefer_css_page_size =
     (let a0 = [''print_background'' \<mapsto> PBool print_background,
                ''landscape'' \<mapsto> PBool landscape,
                ''scale'' \<mapsto> PFloat scale,
                ''margin'' \<mapsto> PDict margins,
                ''display_header_footer'' \<mapsto>
                   PBool (truthy header_template \<or> truthy footer_template),
                ''prefer_css_page_size'' \<mapsto> PBool prefer_css_page_size];
          a1 = set_if ''header_template'' header_template a0;
          a2 = set_if ''footer_template'' footer_template a1
      in if truthy format_name then set_if ''format'' format_name a2
         else set_if ''height'' height (set_if ''width'' width a2))"

section \<open>The rendering engine\<close>

text \<open>
  Exceptions of the model. All of them are subclasses of Python's \<open>Exception\<close>;
  \<open>PWTimeoutError\<close> is Playwright's \<open>TimeoutError\<close>, \<open>Error\<close> stands for any other
  exception with its message.
\<close>

datatype exn =
    PWTimeoutError
  | UnicodeDecodeError
  | IsADirectoryError
  | FileNotFoundError
  | Error pystr

text \<open>
  The headless browser is outside the program. An \<open>engine\<close> fixes, for one call of
  \<open>render_pdf\<close>, what each call into Playwright does: \<open>Some e\<close> when it raises \<open>e\<close>,
  \<open>None\<close> when it returns (\<open>pdf\<close> returns the document's bytes). The calls that take
  arguments may answer differently for different arguments.
\<close>

record engine =
  playwright_start :: "exn option"
  launch :: "exn option"
  new_context :: "bool \<Rightarrow> exn option"
  new_page :: "exn option"
  set_content :: "pystr \<Rightarrow> string \<Rightarrow> int \<Rightarrow> exn option"
  add_style_tag :: "pystr \<Rightarrow> exn option"
  pdf :: "pdf_dict \<Rightarrow> exn + pybytes"
  page_close :: "exn option"
  context_close :: "exn option"
  browser_close :: "exn option"
  playwright_stop :: "exn option"

text \<open>The calls \<open>render_pdf\<close> makes, in the order it makes them, are recorded.\<close>

datatype call =
    Start
  | Launch
  | NewContext bool
  | NewPage
  | SetContent pystr string int
  | AddStyleTag pystr
  | Pdf pdf_dict
  | PageClose
  | ContextClose
  | BrowserClose
  | Stop

text \<open>The style sheet given to \<open>page.add_style_tag\<close>, line by line.\<close>

definition page_style :: pystr where
  "page_style =
     [10] @
     replicate 16 32 @ lit ''@page {'' @ [10] @
     replicate 20 32 @ lit ''margin-top: 0 !important;'' @ [10] @
     replicate 20 32 @ lit ''margin-right: 0 !important;'' @ [10] @
     replicate 20 32 @ lit ''margin-bottom: 0 !important;'' @ [10] @
     replicate 20 32 @ lit ''margin-left: 0 !important;'' @ [10] @
     replicate 20 32 @ lit ''padding: 0 !important;'' @ [10] @
     replicate 16 32 @ lit ''}'' @ [10] @
     replicate 12 32"

text \<open>
  The body of the \<open>try\<close>: load the content, add the style override, assemble the
  arguments and print. The first call that raises ends it.
\<close>

definition try_block ::
  "engine \<Rightarrow> pystr \<Rightarrow> pystr option \<Rightarrow> pystr option \<Rightarrow> pystr option \<Rightarrow> (string \<times> pystr) list \<Rightarrow>
   bool \<Rightarrow> bool \<Rightarrow> real \<Rightarrow> pystr option \<Rightarrow> pystr option \<Rightarrow> bool \<Rightarrow> int \<Rightarrow>
   (exn + pybytes) \<times> call list" where
  "try_block E html format_name width height margins landscape print_background scale
      header_template footer_template prefer_css_page_size wait_timeout_ms =
     (let c1 = SetContent html ''networkidle'' wait_timeout_ms;
          c2 = AddStyleTag page_style
      in case set_content E html ''networkidle'' wait_timeout_ms of
           Some e \<Rightarrow> (Inl e, [c1])
         | None \<Rightarrow>
            (case add_style_tag E page_style of
               Some e \<Rightarrow> (Inl e, [c1, c2])
             | None \<Rightarrow>
                (let args = pdf_args format_name width height margins landscape
                              print_background scale header_template footer_template
                              prefer_css_page_size
                 in (pdf E args, [c1, c2, Pdf args]))))"

text \<open>
  The three \<open>close\<close> calls inside the \<open>finally\<close>, in sequence: the first that raises
  skips the rest.
\<close>

definition close_all :: "engine \<Rightarrow> exn option \<times> call list" where
  "close_all E =
     (case page_close E of
        Some e \<Rightarrow> (Some e, [PageClose])
      | None \<Rightarrow>
         (case context_close E of
            Some e \<Rightarrow> (Some e, [PageClose, ContextClose])
          | None \<Rightarrow> (browser_close E, [PageClose, ContextClose, BrowserClose])))"

text \<open>
  The \<open>finally\<close> block: \<open>except Exception: pass\<close> drops whatever \<open>close_all\<close> raised
  (every \<open>exn\<close> is an \<open>Exception\<close>), so only the calls remain.
\<close>

definition finally_block :: "engine \<Rightarrow> call list" where
  "finally_block E = snd (close_all E)"

text \<open>
  The body of the \<open>with\<close>: browser, context and page are acquired before the \<open>try\<close>, so
  a failure there leaves without entering \<open>try\<close>/\<open>finally\<close>.
\<close>

definition with_block ::
  "engine \<Rightarrow> pystr \<Rightarrow> pystr option \<Rightarrow> pystr option \<Rightarrow> pystr option \<Rightarrow> (string \<times> pystr) list \<Rightarrow>
   bool \<Rightarrow> bool \<Rightarrow> real \<Rightarrow> pystr option \<Rightarrow> pystr option \<Rightarrow> bool \<Rightarrow> int \<Rightarrow>
   (exn + pybytes) \<times> call list" where
  "with_block E html format_name width height margins landscape print_background scale
      header_template footer_template prefer_css_page_size wait_timeout_ms =
     (case launch E of
        Some e \<Rightarrow> (Inl e, [Launch])
      | None \<Rightarrow>
         (case new_context E True of
            Some e \<Rightarrow> (Inl e, [Launch, NewContext True])
          | None \<Rightarrow>
             (case new_page E of
                Some e \<Rightarrow> (Inl e, [Launch, NewContext True, NewPage])
              | None \<Rightarrow>
                 (let (r, t) = try_block E html format_name width height margins landscape
                                 print_background scale header_template footer_template
                                 prefer_css_page_size wait_timeout_ms
                  in (r, [Launch, NewContext True, NewPage] @ t @ finally_block E)))))"

text \<open>
  \<open>render_pdf\<close>: the \<open>with sync_playwright()\<close> statement around \<open>with_block\<close>. An
  exception of the context manager's exit replaces the block's result. The parameter
  \<open>base_url\<close> is received and, as in the source, used nowhere.
\<close>

definition render_pdf ::
  "engine \<Rightarrow> pystr \<Rightarrow> pystr option \<Rightarrow> pystr option \<Rightarrow> pystr option \<Rightarrow> pystr option \<Rightarrow>
   (string \<times> pystr) list \<Rightarrow> bool \<Rightarrow> bool \<Rightarrow> real \<Rightarrow> pystr option \<Rightarrow> pystr option \<Rightarrow> bool \<Rightarrow>
   int \<Rightarrow> (exn + pybytes) \<times> call list" where
  "render_pdf E html base_url format_name width height margins landscape print_background
      scale header_template footer_template prefer_css_page_size wait_timeout_ms =
     (case playwright_start E of
        Some e \<Rightarrow> (Inl e, [Start])
      | None \<Rightarrow>
         (let (r, t) = with_block E html format_name width height margins landscape
                         print_background scale header_template footer_template
                         prefer_css_page_size wait_timeout_ms
          in case playwright_stop E of
               Some e \<Rightarrow> (Inl e, Start # t @ [Stop])
             | None \<Rightarrow> (r, Start # t @ [Stop])))"

section \<open>Decoding bytes to text\<close>

text \<open>
  Python's codecs are library code; they are written out here as CPython implements
  them. \<open>utf8_char ch rest\<close> looks at the sequence that starts with the byte \<open>ch\<close>:
  it is a character (with the number of bytes it takes), or invalid (with the number of
  bytes the error covers: one for an invalid start byte, the valid prefix for an invalid
  continuation byte), or cut off by the end of the data. Overlong forms, surrogates and
  code points above \<open>0x10FFFF\<close> are invalid.
\<close>

datatype utf8_step = Char codepoint nat | Invalid nat | Truncated

definition is_cont :: "nat \<Rightarrow> bool" where
  "is_cont b \<longleftrightarrow> 0x80 \<le> b \<and> b < 0xC0"

definition utf8_char :: "nat \<Rightarrow> nat list \<Rightarrow> utf8_step" where
  "utf8_char ch rest =
     (if ch < 0x80 then Char ch 1
      else if ch < 0xE0 then
        (if ch < 0xC2 then Invalid 1
         else case rest of
                [] \<Rightarrow> Truncated
              | ch2 # _ \<Rightarrow>
                  if \<not> is_cont ch2 then Invalid 1
                  else Char (ch * 64 + ch2 - (0xC0 * 64 + 0x80)) 2)
      else if ch < 0xF0 then
        (case rest of
           [] \<Rightarrow> Truncated
         | [ch2] \<Rightarrow>
             if \<not> is_cont ch2 \<or> (if ch2 < 0xA0 then ch = 0xE0 else ch = 0xED)
             then Invalid 1 else Truncated
         | ch2 # ch3 # _ \<Rightarrow>
             if \<not> is_cont ch2 then Invalid 1
             else if ch = 0xE0 \<and> ch2 < 0xA0 then Invalid 1
             else if ch = 0xED \<and> 0xA0 \<le> ch2 then Invalid 1
             else if \<not> is_cont ch3 then Invalid 2
             else Char (ch * 4096 + ch2 * 64 + ch3 - (0xE0 * 4096 + 0x80 * 64 + 0x80)) 3)
      else if ch < 0xF5 then
        (case rest of
           [] \<Rightarrow> Truncated
         | [ch2] \<Rightarrow>
             if \<not> is_cont ch2 \<or> (if ch2 < 0x90 then ch = 0xF0 else ch = 0xF4)
             then Invalid 1 else Truncated
         | [ch2, ch3] \<Rightarrow>
             if \<not> is_cont ch2 \<or> (if ch2 < 0x90 then ch = 0xF0 else ch = 0xF4)
             then Invalid 1
             else if \<not> is_cont ch3 then Invalid 2 else Truncated
         | ch2 # ch3 # ch4 # _ \<Rightarrow>
             if \<not> is_cont ch2 then Invalid 1
             else if ch = 0xF0 \<and> ch2 < 0x90 then Invalid 1
             else if ch = 0xF4 \<and> 0x90 \<le> ch2 then Invalid 1
             else if \<not> is_cont ch3 then Invalid 2
             else if \<not> is_cont ch4 then Invalid 3
             else Char (ch * 262144 + ch2 * 4096 + ch3 * 64 + ch4 -
                        (0xF0 * 262144 + 0x80 * 4096 + 0x80 * 64 + 0x80)) 4)
      else Invalid 1)"

text \<open>
  The error handlers the source uses: \<open>strict\<close> (the default) raises
  \<open>UnicodeDecodeError\<close>, \<open>ignore\<close> skips the bytes the error covers and goes on.
\<close>

datatype errors = Strict | Ignore

fun utf8_decode :: "errors \<Rightarrow> nat list \<Rightarrow> exn + pystr" where
  "utf8_decode h [] = Inr []"
| "utf8_decode h (ch # rest) =
     (case utf8_char ch rest of
        Char c n \<Rightarrow>
          (case utf8_decode h (drop (n - 1) rest) of
             Inl e \<Rightarrow> Inl e
           | Inr t \<Rightarrow> Inr (c # t))
      | Invalid n \<Rightarrow>
          (case h of
             Strict \<Rightarrow> Inl UnicodeDecodeError
           | Ignore \<Rightarrow> utf8_decode h (drop (n - 1) rest))
      | Truncated \<Rightarrow>
          (case h of
             Strict \<Rightarrow> Inl UnicodeDecodeError
           | Ignore \<Rightarrow> Inr []))"

datatype encoding = UTF8 | Latin1

text \<open>
  \<open>b.decode(encoding, errors)\<close>. Latin-1 maps every byte to the code point of the
  same number, so its error handler is never called.
\<close>

fun bytes_decode :: "encoding \<Rightarrow> errors \<Rightarrow> pybytes \<Rightarrow> exn + pystr" where
  "bytes_decode UTF8 h b = utf8_decode h (map unat b)"
| "bytes_decode Latin1 h b = Inr (map unat b)"

text \<open>
  A file opened in text mode translates newlines (\<open>newline=None\<close>): \<open>\r\n\<close> and a lone
  \<open>\r\<close> are read as \<open>\n\<close>.
\<close>

fun universal_newlines :: "pystr \<Rightarrow> pystr" where
  "universal_newlines [] = []"
| "universal_newlines [c] = [if c = 13 then 10 else c]"
| "universal_newlines (c # d # cs) =
     (if c = 13 \<and> d = 10 then 10 # universal_newlines cs
      else if c = 13 then 10 # universal_newlines (d # cs)
      else c # universal_newlines (d # cs))"

text \<open>
  The single-file branch: \<open>html_bytes.decode("utf-8")\<close>, and on \<open>UnicodeDecodeError\<close>
  \<open>html_bytes.decode("latin-1", errors="ignore")\<close>. Any other exception would pass
  through the \<open>except\<close> clause.
\<close>

definition decode_upload :: "pybytes \<Rightarrow> exn + pystr" where
  "decode_upload html_bytes =
     (case bytes_decode UTF8 Strict html_bytes of
        Inr t \<Rightarrow> Inr t
      | Inl e \<Rightarrow>
          if e = UnicodeDecodeError then bytes_decode Latin1 Ignore html_bytes
          else Inl e)"

section \<open>Scratch storage\<close>

text \<open>
  A file holds bytes, a directory its entries in the order the operating system lists
  them. The temporary directory maps the names directly in it to what they hold; a path
  is its list of components below the temporary directory.
\<close>

datatype node = File pybytes | Dir "(pystr \<times> node) list"

type_synonym path = "pystr list"
type_synonym tmpdir = "pystr \<rightharpoonup> node"

fun node_at :: "node \<Rightarrow> path \<Rightarrow> node option" where
  "node_at n [] = Some n"
| "node_at (File b) (c # cs) = None"
| "node_at (Dir es) (c # cs) =
     (case map_of es c of None \<Rightarrow> None | Some n \<Rightarrow> node_at n cs)"

definition fs_node :: "tmpdir \<Rightarrow> path \<Rightarrow> node option" where
  "fs_node fs p =
     (case p of
        [] \<Rightarrow> None
      | c # cs \<Rightarrow> (case fs c of None \<Rightarrow> None | Some n \<Rightarrow> node_at n cs))"

text \<open>\<open>p.exists()\<close>.\<close>

definition exists_path :: "tmpdir \<Rightarrow> path \<Rightarrow> bool" where
  "exists_path fs p \<longleftrightarrow> fs_node fs p \<noteq> None"

text \<open>
  \<open>p.read_text(encoding, errors)\<close>: the file's bytes decoded in text mode.
\<close>

fun read_text :: "node option \<Rightarrow> encoding \<Rightarrow> errors \<Rightarrow> exn + pystr" where
  "read_text None enc h = Inl FileNotFoundError"
| "read_text (Some (Dir es)) enc h = Inl IsADirectoryError"
| "read_text (Some (File b)) enc h =
     (case bytes_decode enc h b of
        Inl e \<Rightarrow> Inl e
      | Inr t \<Rightarrow> Inr (universal_newlines t))"

text \<open>
  \<open>os.remove(p)\<close> for a name directly in the temporary directory: a file is removed,
  a directory or a missing name raises.
\<close>

definition os_remove :: "tmpdir \<Rightarrow> pystr \<Rightarrow> exn option \<times> tmpdir" where
  "os_remove fs p =
     (case fs p of
        None \<Rightarrow> (Some FileNotFoundError, fs)
      | Some (Dir es) \<Rightarrow> (Some IsADirectoryError, fs)
      | Some (File b) \<Rightarrow> (None, fs(p := None)))"

text \<open>\<open>name.endswith(suffix)\<close>.\<close>

definition endswith :: "pystr \<Rightarrow> pystr \<Rightarrow> bool" where
  "endswith s suf \<longleftrightarrow> length suf \<le> length s \<and> drop (length s - length suf) s = suf"

text \<open>
  \<open>d.rglob(pattern)\<close> for a pattern \<open>*.ext\<close>, which matches exactly the names that end
  in \<open>.ext\<close> (dot files included, case-sensitively on POSIX). Every directory below
  \<open>d\<close>, \<open>d\<close> first and then depth first in listing order, contributes its matching
  entries, files and directories alike. \<open>m\<close> is the match on a name, \<open>p\<close> the path of
  the directory.
\<close>

fun rglob_node :: "(pystr \<Rightarrow> bool) \<Rightarrow> path \<Rightarrow> node \<Rightarrow> path list"
  and rglob_entries :: "(pystr \<Rightarrow> bool) \<Rightarrow> path \<Rightarrow> (pystr \<times> node) list \<Rightarrow> path list" where
  "rglob_node m p (File b) = []"
| "rglob_node m p (Dir es) =
     map (\<lambda>e. p @ [fst e]) (filter (\<lambda>e. m (fst e)) es) @ rglob_entries m p es"
| "rglob_entries m p [] = []"
| "rglob_entries m p (e # es) = rglob_node m (p @ [fst e]) (snd e) @ rglob_entries m p es"

definition rglob :: "tmpdir \<Rightarrow> path \<Rightarrow> pystr \<Rightarrow> path list" where
  "rglob fs d ext =
     (case fs_node fs d of
        None \<Rightarrow> []
      | Some n \<Rightarrow> rglob_node (\<lambda>name. endswith name ext) d n)"

section \<open>The environment of one conversion\<close>

text \<open>
  What the program takes from outside: the engine, the \<open>zipfile\<close> library (\<open>unzip\<close>
  gives the extracted entries of an archive, or the exception that opening or extracting
  raises together with the entries extracted until then), \<open>Path.as_uri\<close>, and the
  random parts of the names that \<open>tempfile\<close> picks.
\<close>

record env =
  engine_of :: engine
  unzip :: "pybytes \<Rightarrow> exn \<times> (pystr \<times> node) list + (pystr \<times> node) list"
  as_uri :: "path \<Rightarrow> pystr"
  zip_random :: pystr
  dir_random :: pystr

section \<open>Finding the entry point\<close>

text \<open>
  \<open>find_html_in_zip(zip_path)\<close>: \<open>mkdtemp\<close> creates the extraction directory,
  \<open>extractall\<close> fills it, and the entry is \<open>index.html\<close> at its root if that exists,
  else the first of the \<open>*.html\<close> matches followed by the \<open>*.htm\<close> matches, else
  \<open>None\<close>. The directory is returned to nobody and stays in the temporary directory.
  \<open>mkdtemp\<close> picks a name that is not in use, so the archive is the file that was at
  \<open>zip_path\<close> before; when \<open>zipfile\<close> raises, the exception leaves the function and
  the directory stays with what was extracted until then.
\<close>

definition find_html_in_zip :: "env \<Rightarrow> tmpdir \<Rightarrow> pystr \<Rightarrow> (exn + path option) \<times> tmpdir" where
  "find_html_in_zip V fs zip_path =
     (let extract_dir = lit ''html2pdf_zip_'' @ dir_random V;
          fs1 = fs(extract_dir \<mapsto> Dir [])
      in case fs zip_path of
           None \<Rightarrow> (Inl FileNotFoundError, fs1)
         | Some (Dir ds) \<Rightarrow> (Inl IsADirectoryError, fs1)
         | Some (File data) \<Rightarrow>
            (case unzip V data of
               Inl (e, part) \<Rightarrow> (Inl e, fs1(extract_dir \<mapsto> Dir part))
             | Inr es \<Rightarrow>
                (let fs2 = fs1(extract_dir \<mapsto> Dir es);
                     idx = [extract_dir, lit ''index.html'']
                 in if exists_path fs2 idx then (Inr (Some idx), fs2)
                    else
                      (let html_files = rglob fs2 [extract_dir] (lit ''.html'') @
                                        rglob fs2 [extract_dir] (lit ''.htm'')
                       in (Inr (case html_files of [] \<Rightarrow> None | f # _ \<Rightarrow> Some f), fs2)))))"

section \<open>One conversion\<close>

text \<open>
  The form's values when \<open>Generate PDF\<close> is pressed. \<open>uploaded\<close> is the uploaded
  file's name and bytes, \<open>None\<close> when nothing was uploaded.
\<close>

record request =
  uploaded :: "(pystr \<times> pybytes) option"
  base_url_manual :: pystr
  paper_choice :: pystr
  custom_w :: pystr
  custom_h :: pystr
  m_top :: pystr
  m_right :: pystr
  m_bottom :: pystr
  m_left :: pystr
  landscape :: bool
  print_background :: bool
  prefer_css_page_size :: bool
  scale :: real
  header_template :: pystr
  footer_template :: pystr
  wait_timeout_ms :: int

text \<open>
  How the handling of a request ends: the four messages of the page (each followed by
  \<open>st.stop()\<close>, except success), or an exception no handler catches.
\<close>

datatype outcome =
    MissingInput
  | NoEntryPointFound
  | ContentLoadTimeout
  | RenderFailure exn
  | Uncaught exn
  | Success pybytes

text \<open>
  \<open>Path(name).suffix.lower()\<close> on a POSIX host. The name of a path is its last
  component, empty components and \<open>.\<close> dropped; the suffix starts at the name's last
  dot, unless that dot is the first or the last character. \<open>lower\<close> is written for
  ASCII letters: its result is only compared with \<open>.zip\<close>, which \<open>str.lower\<close> yields
  for no other spelling than the ASCII ones.
\<close>

fun split_at :: "'a \<Rightarrow> 'a list \<Rightarrow> 'a list list" where
  "split_at sep [] = [[]]"
| "split_at sep (x # xs) =
     (if x = sep then [] # split_at sep xs
      else (case split_at sep xs of [] \<Rightarrow> [[x]] | p # ps \<Rightarrow> (x # p) # ps))"

definition path_name :: "pystr \<Rightarrow> pystr" where
  "path_name p =
     (case filter (\<lambda>c. c \<noteq> [] \<and> c \<noteq> lit ''.'') (split_at 47 p) of
        [] \<Rightarrow> []
      | c # cs \<Rightarrow> last (c # cs))"

definition rfind :: "'a \<Rightarrow> 'a list \<Rightarrow> nat option" where
  "rfind c s =
     (if c \<in> set s then Some (length s - 1 - length (takeWhile (\<lambda>x. x \<noteq> c) (rev s)))
      else None)"

definition path_suffix :: "pystr \<Rightarrow> pystr" where
  "path_suffix p =
     (let name = path_name p
      in case rfind 46 name of
           None \<Rightarrow> []
         | Some i \<Rightarrow> if 0 < i \<and> i < length name - 1 then drop i name else [])"

definition lower :: "pystr \<Rightarrow> pystr" where
  "lower s = map (\<lambda>c. if 65 \<le> c \<and> c \<le> 90 then c + 32 else c) s"

text \<open>
  The archive branch: the upload is copied to a \<open>mkstemp\<close> file, which is entered into
  \<open>cleanup_paths\<close>; the entry is found, checked, read as UTF-8 with \<open>errors="ignore"\<close>,
  and the base URL is the URI of its directory. The result is the outcome that ends the
  request here, or the text and the base URL; with it come the temporary directory and
  \<open>cleanup_paths\<close>.
\<close>

definition zip_branch ::
  "env \<Rightarrow> tmpdir \<Rightarrow> pybytes \<Rightarrow> (outcome + pystr \<times> pystr option) \<times> tmpdir \<times> pystr list" where
  "zip_branch V fs data =
     (let tmp_zip = lit ''html2pdf_'' @ zip_random V @ lit ''.zip'';
          fs1 = fs(tmp_zip \<mapsto> File data);
          cleanup_paths = [tmp_zip];
          (found, fs2) = find_html_in_zip V fs1 tmp_zip
      in case found of
           Inl e \<Rightarrow> (Inl (Uncaught e), fs2, cleanup_paths)
         | Inr None \<Rightarrow> (Inl NoEntryPointFound, fs2, cleanup_paths)
         | Inr (Some entry) \<Rightarrow>
             if \<not> exists_path fs2 entry then (Inl NoEntryPointFound, fs2, cleanup_paths)
             else
               (case read_text (fs_node fs2 entry) UTF8 Ignore of
                  Inl e \<Rightarrow> (Inl (Uncaught e), fs2, cleanup_paths)
                | Inr html_text \<Rightarrow>
                    (Inr (html_text, Some (as_uri V (butlast entry))), fs2, cleanup_paths)))"

text \<open>
  The single-file branch: the bytes are decoded, the base URL is the form's, \<open>None\<close>
  when blank. Nothing is written to the temporary directory.
\<close>

definition file_branch :: "pybytes \<Rightarrow> pystr \<Rightarrow> outcome + pystr \<times> pystr option" where
  "file_branch data base_url_text =
     (case decode_upload data of
        Inl e \<Rightarrow> Inl (Uncaught e)
      | Inr html_text \<Rightarrow> Inr (html_text, or_None (strip base_url_text)))"

text \<open>
  The call of \<open>render_pdf\<close> with the form's values, and its calls into the engine.
\<close>

definition render_call ::
  "env \<Rightarrow> request \<Rightarrow> pystr \<Rightarrow> pystr option \<Rightarrow> (exn + pybytes) \<times> call list" where
  "render_call V R html_text base_url =
     (let (format_name, width, height) =
            normalize_paper (paper_choice R) (Some (custom_w R)) (Some (custom_h R));
          margins = [(''top'', m_top R), (''right'', m_right R),
                     (''bottom'', m_bottom R), (''left'', m_left R)]
      in render_pdf (engine_of V) html_text base_url format_name width height margins
           (landscape R) (print_background R) (scale R)
           (or_None (strip (header_template R))) (or_None (strip (footer_template R)))
           (prefer_css_page_size R) (wait_timeout_ms R))"

text \<open>
  The handlers around the call: \<open>except PWTimeoutError\<close>, then \<open>except Exception\<close>.
\<close>

definition render_outcome :: "env \<Rightarrow> request \<Rightarrow> pystr \<Rightarrow> pystr option \<Rightarrow> outcome" where
  "render_outcome V R html_text base_url =
     (case fst (render_call V R html_text base_url) of
        Inl e \<Rightarrow> if e = PWTimeoutError then ContentLoadTimeout else RenderFailure e
      | Inr pdf_bytes \<Rightarrow> Success pdf_bytes)"

text \<open>
  The outer \<open>finally\<close>: \<open>os.remove\<close> on each of \<open>cleanup_paths\<close>, exceptions dropped.
\<close>

fun cleanup :: "tmpdir \<Rightarrow> pystr list \<Rightarrow> tmpdir" where
  "cleanup fs [] = fs"
| "cleanup fs (p # ps) = cleanup (snd (os_remove fs p)) ps"

text \<open>
  The handling of one request: its outcome and the temporary directory it leaves.
\<close>

definition convert :: "env \<Rightarrow> tmpdir \<Rightarrow> request \<Rightarrow> outcome \<times> tmpdir" where
  "convert V fs R =
     (case uploaded R of
        None \<Rightarrow> (MissingInput, fs)
      | Some (name, data) \<Rightarrow>
         (let suffix = lower (path_suffix name);
              (src, fs1, cleanup_paths) =
                 (if suffix = lit ''.zip'' then zip_branch V fs data
                  else (file_branch data (base_url_manual R), fs, []));
              out = (case src of
                       Inl stopped \<Rightarrow> stopped
                     | Inr (html_text, base_url) \<Rightarrow> render_outcome V R html_text base_url)
          in (out, cleanup fs1 cleanup_paths)))"

section \<open>Entries of an extracted archive\<close>

text \<open>
  The notions the claims about the entry point speak of. \<open>entries p es\<close> lists the
  paths of all files and directories below a directory \<open>p\<close> with entries \<open>es\<close>,
  \<open>files p es\<close> the paths of the files only; a name is HTML-like when it ends in
  \<open>.html\<close> or \<open>.htm\<close>; in a well-formed directory no name occurs twice.
\<close>

fun entries_node :: "path \<Rightarrow> node \<Rightarrow> path list"
  and entries :: "path \<Rightarrow> (pystr \<times> node) list \<Rightarrow> path list" where
  "entries_node p (File b) = []"
| "entries_node p (Dir es) = entries p es"
| "entries p [] = []"
| "entries p (e # es) = (p @ [fst e]) # entries_node (p @ [fst e]) (snd e) @ entries p es"

fun files_node :: "path \<Rightarrow> node \<Rightarrow> path list"
  and files :: "path \<Rightarrow> (pystr \<times> node) list \<Rightarrow> path list" where
  "files_node p (File b) = [p]"
| "files_node p (Dir es) = files p es"
| "files p [] = []"
| "files p (e # es) = files_node (p @ [fst e]) (snd e) @ files p es"

definition html_like :: "pystr \<Rightarrow> bool" where
  "html_like name \<longleftrightarrow> endswith name (lit ''.html'') \<or> endswith name (lit ''.htm'')"

fun wf_node :: "node \<Rightarrow> bool"
  and wf_entries :: "(pystr \<times> node) list \<Rightarrow> bool" where
  "wf_node (File b) = True"
| "wf_node (Dir es) = (distinct (map fst es) \<and> wf_entries es)"
| "wf_entries [] = True"
| "wf_entries (e # es) = (wf_node (snd e) \<and> wf_entries es)"

section \<open>Concrete engines\<close>

text \<open>
  An engine whose every call returns, printing a four-byte document, and the same engine
  with a \<open>page.close()\<close> that raises.
\<close>

definition ok_engine :: engine where
  "ok_engine =
     \<lparr>playwright_start = None, launch = None, new_context = (\<lambda>js. None), new_page = None,
      set_content = (\<lambda>html wait_until timeout. None), add_style_tag = (\<lambda>content. None),
      pdf = (\<lambda>args. Inr [0x25, 0x50, 0x44, 0x46]),
      page_close = None, context_close = None, browser_close = None,
      playwright_stop = None\<rparr>"

definition page_close_fails :: engine where
  "page_close_fails = ok_engine\<lparr>page_close := Some (Error (lit ''Target closed''))\<rparr>"

section \<open>Concrete archives and requests\<close>

text \<open>
  Three extracted archives (one with \<open>index.html\<close> among other pages, one with pages
  but no \<open>index.html\<close>, one whose only member is the text file \<open>pages.html/inner.txt\<close>),
  an environment that extracts a given archive and renders with \<open>ok_engine\<close>, and a
  request that uploads \<open>site.zip\<close> with the form's defaults.
\<close>

definition site_entries :: "(pystr \<times> node) list" where
  "site_entries =
     [(lit ''about.html'', File [0x3C, 0x70, 0x3E]),
      (lit ''index.html'', File [0x3C, 0x70, 0x3E, 0x78]),
      (lit ''style.css'', File [])]"

definition docs_entries :: "(pystr \<times> node) list" where
  "docs_entries =
     [(lit ''notes.htm'', File [0x68]),
      (lit ''docs'', Dir [(lit ''b.htm'', File [0x62]), (lit ''a.html'', File [0x61])]),
      (lit ''readme.txt'', File [])]"

definition pages_entries :: "(pystr \<times> node) list" where
  "pages_entries = [(lit ''pages.html'', Dir [(lit ''inner.txt'', File [0x68, 0x69])])]"

definition demo_env :: "(pystr \<times> node) list \<Rightarrow> env" where
  "demo_env es =
     \<lparr>engine_of = ok_engine, unzip = (\<lambda>b. Inr es),
      as_uri = (\<lambda>p. lit ''file:///tmp'' @ concat (map (\<lambda>c. 47 # c) p)),
      zip_random = lit ''abc'', dir_random = lit ''xyz''\<rparr>"

definition demo_request :: request where
  "demo_request =
     \<lparr>uploaded = Some (lit ''site.zip'', [0x50, 0x4B]), base_url_manual = [],
      paper_choice = lit ''A4'', custom_w = [], custom_h = [],
      m_top = lit ''15mm'', m_right = lit ''15mm'', m_bottom = lit ''15mm'',
      m_left = lit ''15mm'', landscape = False, print_background = True,
      prefer_css_page_size = True, scale = 1, header_template = [], footer_template = [],
      wait_timeout_ms = 30000\<rparr>"

section \<open>Evaluation of literals and dictionary lookups\<close>

lemma lit_simps: "lit [] = []" "lit (c # cs) = of_char c # lit cs"
  by (simp_all add: lit_def)

lemma set_if_apply:
  "set_if k x d k' = (if k' = k \<and> truthy x then Some (PStr (the x)) else d k')"
  by (cases x) auto

lemma pdf_args_format:
  "pdf_args f w h m l p s hdr ftr pc ''format'' =
     (if truthy f then Some (PStr (the f)) else None)"
  by (simp add: pdf_args_def Let_def set_if_apply)

lemma pdf_args_width:
  "pdf_args f w h m l p s hdr ftr pc ''width'' =
     (if \<not> truthy f \<and> truthy w then Some (PStr (the w)) else None)"
  by (simp add: pdf_args_def Let_def set_if_apply)

lemma pdf_args_height:
  "pdf_args f w h m l p s hdr ftr pc ''height'' =
     (if \<not> truthy f \<and> truthy h then Some (PStr (the h)) else None)"
  by (simp add: pdf_args_def Let_def set_if_apply)

lemma pdf_args_display_header_footer:
  "pdf_args f w h m l p s hdr ftr pc ''display_header_footer'' =
     Some (PBool (truthy hdr \<or> truthy ftr))"
  by (simp add: pdf_args_def Let_def set_if_apply)

lemma pdf_args_header_template:
  "pdf_args f w h m l p s hdr ftr pc ''header_template'' =
     (if truthy hdr then Some (PStr (the hdr)) else None)"
  by (simp add: pdf_args_def Let_def set_if_apply)

lemma pdf_args_footer_template:
  "pdf_args f w h m l p s hdr ftr pc ''footer_template'' =
     (if truthy ftr then Some (PStr (the ftr)) else None)"
  by (simp add: pdf_args_def Let_def set_if_apply)

lemma normalize_paper_custom:
  "normalize_paper (lit ''Custom'') cw ch =
     (None, or_None (strip (or_empty cw)), or_None (strip (or_empty ch)))"
  by (simp add: normalize_paper_def)

lemma normalize_paper_preset:
  "pc \<noteq> lit ''Custom'' \<Longrightarrow> normalize_paper pc cw ch = (Some pc, None, None)"
  by (simp add: normalize_paper_def)

lemma truthy_or_None: "truthy (or_None s) \<longleftrightarrow> s \<noteq> []"
  by (simp add: or_None_def)

lemma the_or_None: "s \<noteq> [] \<Longrightarrow> the (or_None s) = s"
  by (simp add: or_None_def)

section \<open>Geometry: preset and explicit size exclude each other\<close>

text \<open>
  Claim C4. Whatever the paper choice and the custom width and height are, the
  dictionary assembled from \<open>normalize_paper\<close>'s triple never holds \<open>format\<close> together
  with \<open>width\<close> or \<open>height\<close>. With a named preset (a paper choice other than
  \<open>Custom\<close>, and not the empty string) it holds \<open>format\<close>, set to the preset, and neither
  \<open>width\<close> nor \<open>height\<close>. With \<open>Custom\<close> it holds no \<open>format\<close>, and \<open>width\<close>
  (\<open>height\<close>) exactly when the custom width (height) is non-blank after \<open>strip\<close>, set to
  the stripped string; both blank sets neither.
\<close>

theorem geometry_exclusive:
  fixes paper_choice :: pystr and custom_w custom_h :: "pystr option"
  shows
  "(let (format_name, width, height) = normalize_paper paper_choice custom_w custom_h;
        args = pdf_args format_name width height m l p s hdr ftr pc;
        w = strip (or_empty custom_w); h = strip (or_empty custom_h)
    in \<not> (''format'' \<in> dom args \<and> (''width'' \<in> dom args \<or> ''height'' \<in> dom args)) \<and>
       (paper_choice \<noteq> lit ''Custom'' \<and> paper_choice \<noteq> [] \<longrightarrow>
          args ''format'' = Some (PStr paper_choice) \<and>
          args ''width'' = None \<and> args ''height'' = None) \<and>
       (paper_choice = lit ''Custom'' \<longrightarrow>
          args ''format'' = None \<and>
          args ''width'' = (if w \<noteq> [] then Some (PStr w) else None) \<and>
          args ''height'' = (if h \<noteq> [] then Some (PStr h) else None)))"
proof (cases "paper_choice = lit ''Custom''")
  case True
  then show ?thesis
    by (simp add: normalize_paper_custom pdf_args_format pdf_args_width pdf_args_height
        truthy_or_None the_or_None dom_def Let_def)
next
  case False
  then show ?thesis
    by (simp add: normalize_paper_preset pdf_args_format pdf_args_width pdf_args_height
        dom_def Let_def)
qed

theorem geometry_exclusive_witness:
  "(let (format_name, width, height) =
          normalize_paper (lit ''Letter'') (Some (lit ''210mm'')) (Some (lit '' ''));
        args = pdf_args format_name width height [] False True 1 None None True
    in lit ''Letter'' \<noteq> lit ''Custom'' \<and> lit ''Letter'' \<noteq> [] \<and>
       args ''format'' = Some (PStr (lit ''Letter'')) \<and>
       args ''width'' = None \<and> args ''height'' = None) \<and>
   (let (format_name, width, height) =
          normalize_paper (lit ''Custom'') (Some (lit ''210mm'')) (Some (lit '' ''));
        args = pdf_args format_name width height [] False True 1 None None True
    in args ''format'' = None \<and> args ''width'' = Some (PStr (lit ''210mm'')) \<and>
       args ''height'' = None)"
  using
    geometry_exclusive [of "lit ''Letter''" "Some (lit ''210mm'')" "Some (lit '' '')"
      "[]" False True 1 None None True]
    geometry_exclusive [of "lit ''Custom''" "Some (lit ''210mm'')" "Some (lit '' '')"
      "[]" False True 1 None None True]
  by (simp add: Let_def lit_simps strip_def isspace_def split: prod.splits)

section \<open>Header and footer\<close>

text \<open>
  Claim C5. In the assembled dictionary \<open>display_header_footer\<close> is the presence of
  either template: false when both are empty (\<open>None\<close> or the empty string), true when at
  least one is not; \<open>header_template\<close> and \<open>footer_template\<close> are set only when the
  template is present. The same holds through the caller's \<open>strip() or None\<close>, where a
  template is present when its text is non-blank.
\<close>

theorem header_footer_flag:
  fixes hdr ftr :: "pystr option" and hdr_text ftr_text :: pystr
  shows
  "(let args = pdf_args f w h m l p s hdr ftr pc
    in args ''display_header_footer'' = Some (PBool (truthy hdr \<or> truthy ftr)) \<and>
       args ''header_template'' = (if truthy hdr then Some (PStr (the hdr)) else None) \<and>
       args ''footer_template'' = (if truthy ftr then Some (PStr (the ftr)) else None)) \<and>
   (let args = pdf_args f w h m l p s (or_None (strip hdr_text)) (or_None (strip ftr_text)) pc
    in args ''display_header_footer'' =
         Some (PBool (strip hdr_text \<noteq> [] \<or> strip ftr_text \<noteq> [])) \<and>
       args ''header_template'' =
         (if strip hdr_text \<noteq> [] then Some (PStr (strip hdr_text)) else None) \<and>
       args ''footer_template'' =
         (if strip ftr_text \<noteq> [] then Some (PStr (strip ftr_text)) else None))"
  by (simp add: Let_def pdf_args_display_header_footer pdf_args_header_template
      pdf_args_footer_template truthy_or_None the_or_None)

theorem header_footer_flag_witness:
  "(let args = pdf_args None None None [] False True 1 None (Some []) True
    in args ''display_header_footer'' = Some (PBool False) \<and>
       args ''header_template'' = None \<and> args ''footer_template'' = None) \<and>
   (let args = pdf_args None None None [] False True 1 (Some (lit ''H'')) None True
    in args ''display_header_footer'' = Some (PBool True) \<and>
       args ''header_template'' = Some (PStr (lit ''H'')) \<and>
       args ''footer_template'' = None) \<and>
   (let args = pdf_args None None None [] False True 1 (Some []) (Some (lit ''F'')) True
    in args ''display_header_footer'' = Some (PBool True) \<and>
       args ''header_template'' = None \<and>
       args ''footer_template'' = Some (PStr (lit ''F''))) \<and>
   (let args = pdf_args None None None [] False True 1 (Some (lit ''H'')) (Some (lit ''F''))
                 True
    in args ''display_header_footer'' = Some (PBool True) \<and>
       args ''header_template'' = Some (PStr (lit ''H'')) \<and>
       args ''footer_template'' = Some (PStr (lit ''F'')))"
  using
    header_footer_flag [of None None None "[]" False True 1 None "Some []" True "[]" "[]"]
    header_footer_flag [of None None None "[]" False True 1 "Some (lit ''H'')" None True
      "[]" "[]"]
    header_footer_flag [of None None None "[]" False True 1 "Some []" "Some (lit ''F'')" True
      "[]" "[]"]
    header_footer_flag [of None None None "[]" False True 1 "Some (lit ''H'')"
      "Some (lit ''F'')" True "[]" "[]"]
  by (simp add: Let_def lit_simps)

section \<open>The base URL\<close>

lemma render_outcome_base_url:
  "render_outcome V R html base_url = render_outcome V R html None"
  by (simp add: render_outcome_def render_call_def render_pdf_def)

lemma render_call_base_url_manual:
  "render_call V (R\<lparr>base_url_manual := u\<rparr>) html b = render_call V R html b"
  by (simp add: render_call_def)

lemma render_outcome_base_url_manual:
  "render_outcome V (R\<lparr>base_url_manual := u\<rparr>) html b = render_outcome V R html b"
  by (simp add: render_outcome_def render_call_base_url_manual)

lemma render_outcome_or_None:
  "render_outcome V R html (or_None x) = render_outcome V R html None"
  by (rule render_outcome_base_url)

lemma convert_base_url_manual: "convert V fs (R\<lparr>base_url_manual := u\<rparr>) = convert V fs R"
proof (cases "uploaded R")
  case None
  then show ?thesis by (simp add: convert_def)
next
  case (Some a)
  obtain name data where a: "a = (name, data)" by (cases a)
  show ?thesis
  proof (cases "lower (path_suffix name) = lit ''.zip''")
    case True
    with Some a show ?thesis
      by (simp add: convert_def Let_def render_outcome_base_url_manual
          split: prod.splits sum.splits)
  next
    case False
    with Some a show ?thesis
      by (cases "decode_upload data")
        (simp_all add: convert_def Let_def file_branch_def render_outcome_base_url_manual
          render_outcome_or_None)
  qed
qed

text \<open>
  Claim C1 (the code does otherwise). \<open>render_pdf\<close> makes the same calls into the
  engine, with the same arguments, and returns the same result whatever \<open>base_url\<close> is:
  \<open>page.set_content\<close> receives the HTML, \<open>networkidle\<close> and the timeout only. So a
  conversion does not depend on the base URL typed into the form either.
\<close>

theorem base_url_unused:
  "render_pdf E html base_url f w h m l p s hdr ftr pc t =
     render_pdf E html None f w h m l p s hdr ftr pc t \<and>
   convert V fs (R\<lparr>base_url_manual := u\<rparr>) = convert V fs R"
  by (simp add: render_pdf_def convert_base_url_manual)

section \<open>Releasing page, context and browser\<close>

lemma finally_block_calls:
  "finally_block E =
     (if page_close E \<noteq> None then [PageClose]
      else if context_close E \<noteq> None then [PageClose, ContextClose]
      else [PageClose, ContextClose, BrowserClose])"
  by (auto simp: finally_block_def close_all_def split: option.splits)

lemma try_block_close_indep:
  "try_block (E\<lparr>page_close := x, context_close := y, browser_close := z\<rparr>)
     html f w h m l p s hdr ftr pc t = try_block E html f w h m l p s hdr ftr pc t"
  by (simp add: try_block_def Let_def split: option.splits)

lemma with_block_acquired:
  "launch E = None \<Longrightarrow> new_context E True = None \<Longrightarrow> new_page E = None \<Longrightarrow>
   with_block E html f w h m l p s hdr ftr pc t =
     (fst (try_block E html f w h m l p s hdr ftr pc t),
      [Launch, NewContext True, NewPage] @ snd (try_block E html f w h m l p s hdr ftr pc t) @
      finally_block E)"
  by (simp add: with_block_def split: prod.splits)

lemma with_block_result_close_indep:
  "fst (with_block (E\<lparr>page_close := x, context_close := y, browser_close := z\<rparr>)
          html f w h m l p s hdr ftr pc t) =
   fst (with_block E html f w h m l p s hdr ftr pc t)"
  by (simp add: with_block_def try_block_close_indep split: option.splits prod.splits)

text \<open>
  What the \<open>finally\<close> block does. Once the page has been created, on every way out of
  the \<open>try\<close> (the document, a timeout, any other exception) \<open>render_pdf\<close> calls
  \<open>page.close\<close>, \<open>context.close\<close> and \<open>browser.close\<close> in this order, up to the
  first of them that raises. What the close calls raise is dropped: with a context
  manager exit that returns, \<open>render_pdf\<close>'s result is that of the \<open>try\<close>, and it is
  the same whatever the three close calls do.
\<close>

lemma cleanup_after_page:
  "(playwright_start E = None \<and> launch E = None \<and> new_context E True = None \<and>
    new_page E = None \<longrightarrow>
      snd (render_pdf E html base_url f w h m l p s hdr ftr pc t) =
        [Start, Launch, NewContext True, NewPage] @
        snd (try_block E html f w h m l p s hdr ftr pc t) @
        (if page_close E \<noteq> None then [PageClose]
         else if context_close E \<noteq> None then [PageClose, ContextClose]
         else [PageClose, ContextClose, BrowserClose]) @ [Stop] \<and>
      (playwright_stop E = None \<longrightarrow>
         fst (render_pdf E html base_url f w h m l p s hdr ftr pc t) =
         fst (try_block E html f w h m l p s hdr ftr pc t))) \<and>
   fst (render_pdf (E\<lparr>page_close := x, context_close := y, browser_close := z\<rparr>)
          html base_url f w h m l p s hdr ftr pc t) =
   fst (render_pdf E html base_url f w h m l p s hdr ftr pc t)"
proof -
  have indep:
    "fst (render_pdf (E\<lparr>page_close := x, context_close := y, browser_close := z\<rparr>)
            html base_url f w h m l p s hdr ftr pc t) =
     fst (render_pdf E html base_url f w h m l p s hdr ftr pc t)"
    by (simp add: render_pdf_def with_block_result_close_indep split_beta
        split: option.splits)
  have acq: "snd (render_pdf E html base_url f w h m l p s hdr ftr pc t) =
        [Start, Launch, NewContext True, NewPage] @
        snd (try_block E html f w h m l p s hdr ftr pc t) @ finally_block E @ [Stop] \<and>
      (playwright_stop E = None \<longrightarrow>
         fst (render_pdf E html base_url f w h m l p s hdr ftr pc t) =
         fst (try_block E html f w h m l p s hdr ftr pc t))"
    if "playwright_start E = None" "launch E = None" "new_context E True = None"
      "new_page E = None"
    using that
    by (simp add: render_pdf_def with_block_acquired split: option.splits)
  from indep acq show ?thesis
    unfolding finally_block_calls by blast
qed

text \<open>
  Claim C6 (the code does otherwise). The page, the context and the browser are to be
  released on every way out, and an exception of the cleanup is to be dropped. The three
  close calls share one \<open>try\<close>: where printing succeeds and \<open>page.close()\<close> raises,
  \<open>render_pdf\<close> returns the document, having called \<open>page.close\<close> and neither
  \<open>context.close\<close> nor \<open>browser.close\<close>.
\<close>

theorem cleanup_counterexample:
  "ContextClose \<notin> set (snd (render_pdf page_close_fails (lit ''<p>x</p>'') None
      (Some (lit ''A4'')) None None [] False True 1 None None True 30000)) \<and>
   BrowserClose \<notin> set (snd (render_pdf page_close_fails (lit ''<p>x</p>'') None
      (Some (lit ''A4'')) None None [] False True 1 None None True 30000)) \<and>
   PageClose \<in> set (snd (render_pdf page_close_fails (lit ''<p>x</p>'') None
      (Some (lit ''A4'')) None None [] False True 1 None None True 30000)) \<and>
   fst (render_pdf page_close_fails (lit ''<p>x</p>'') None
      (Some (lit ''A4'')) None None [] False True 1 None None True 30000) =
     Inr [0x25, 0x50, 0x44, 0x46]"
  by (simp add: render_pdf_def with_block_def try_block_def finally_block_def close_all_def
      page_close_fails_def ok_engine_def)

section \<open>Decoding\<close>

lemma utf8_strict_error: "utf8_decode Strict bs = Inl e \<Longrightarrow> e = UnicodeDecodeError"
proof (induction "Strict" bs arbitrary: e rule: utf8_decode.induct)
  case 1
  then show ?case by simp
next
  case (2 ch rest)
  show ?case
  proof (cases "utf8_char ch rest")
    case (Char c n)
    with 2 show ?thesis by (simp split: sum.splits)
  next
    case (Invalid n)
    with 2 show ?thesis by simp
  next
    case Truncated
    with 2 show ?thesis by simp
  qed
qed




lemma decode_upload_eq:
  "decode_upload b =
     (case utf8_decode Strict (map unat b) of Inr t \<Rightarrow> Inr t | Inl e \<Rightarrow> Inr (map unat b))"
  by (auto simp: decode_upload_def dest: utf8_strict_error split: sum.splits)

text \<open>
  Claim C9. For every byte sequence uploaded as a single file the decoding returns a
  text, never an exception and never nothing: strict UTF-8 raises
  \<open>UnicodeDecodeError\<close> only, which the handler catches, and Latin-1 decodes every
  byte. Where UTF-8 fails, the text is the Latin-1 reading of the bytes.
\<close>

theorem single_file_decode_total:
  "(\<exists>t. decode_upload html_bytes = Inr t) \<and>
   (\<exists>t. file_branch html_bytes base_url_text = Inr (t, or_None (strip base_url_text))) \<and>
   (\<forall>e. bytes_decode UTF8 Strict html_bytes = Inl e \<longrightarrow>
      decode_upload html_bytes = Inr (map unat html_bytes))"
  by (auto simp: decode_upload_eq file_branch_def split: sum.splits)

theorem single_file_decode_total_witness:
  "bytes_decode UTF8 Strict [0x3C, 0x70, 0x3E, 0xFF] = Inl UnicodeDecodeError \<and>
   decode_upload [0x3C, 0x70, 0x3E, 0xFF] = Inr [60, 112, 62, 255] \<and>
   file_branch [0x3C, 0x70, 0x3E, 0xFF] [] = Inr ([60, 112, 62, 255], None)"
  using single_file_decode_total [of "[0x3C, 0x70, 0x3E, 0xFF]" "[]"]
  by (simp add: decode_upload_def file_branch_def utf8_char_def or_None_def strip_def)




section \<open>The entry point of an archive\<close>

lemma exists_path_root:
  "exists_path (fs(d \<mapsto> Dir es)) [d, i] \<longleftrightarrow> i \<in> fst ` set es"
proof -
  have "exists_path (fs(d \<mapsto> Dir es)) [d, i] \<longleftrightarrow> map_of es i \<noteq> None"
    by (simp add: exists_path_def fs_node_def split: option.splits)
  then show ?thesis by (simp add: map_of_eq_None_iff)
qed

lemma rglob_root:
  "rglob (fs(d \<mapsto> Dir es)) [d] ext = rglob_node (\<lambda>name. endswith name ext) [d] (Dir es)"
  by (simp add: rglob_def fs_node_def)

lemma entries_set:
  "set (entries p es) =
     (\<lambda>e. p @ [fst e]) ` set es \<union> (\<Union>e\<in>set es. set (entries_node (p @ [fst e]) (snd e)))"
  by (induction es) auto

lemma rglob_sets:
  "set (rglob_node m p n) = {q \<in> set (entries_node p n). m (last q)}"
  "set (rglob_entries m p es) =
     {q \<in> (\<Union>e\<in>set es. set (entries_node (p @ [fst e]) (snd e))). m (last q)}"
proof (induction m p n and m p es rule: rglob_node_rglob_entries.induct)
  case (1 m p b)
  show ?case by simp
next
  case (2 m p es)
  then show ?case by (auto simp: entries_set)
next
  case (3 m p)
  show ?case by simp
next
  case (4 m p e es)
  then show ?case by auto
qed

lemma find_html_in_zip_extracted:
  assumes "fs zip_path = Some (File data)" and "unzip V data = Inr es"
  shows "find_html_in_zip V fs zip_path =
    (let d = lit ''html2pdf_zip_'' @ dir_random V;
         html_files = rglob_node (\<lambda>name. endswith name (lit ''.html'')) [d] (Dir es) @
                      rglob_node (\<lambda>name. endswith name (lit ''.htm'')) [d] (Dir es)
     in (Inr (if lit ''index.html'' \<in> fst ` set es then Some [d, lit ''index.html'']
              else (case html_files of [] \<Rightarrow> None | f # _ \<Rightarrow> Some f)),
         fs(d \<mapsto> Dir es)))"
  using assms
  by (simp add: find_html_in_zip_def Let_def exists_path_root rglob_root)

lemma map_of_distinct_entry:
  "distinct (map fst es) \<Longrightarrow> e \<in> set es \<Longrightarrow> map_of es (fst e) = Some (snd e)"
  by (cases e) simp

lemma wf_entries_iff: "wf_entries es \<longleftrightarrow> (\<forall>e\<in>set es. wf_node (snd e))"
  by (induction es) auto

lemma entries_exist:
  "wf_node n \<Longrightarrow> q \<in> set (entries_node p n) \<Longrightarrow>
     \<exists>cs. q = p @ cs \<and> cs \<noteq> [] \<and> node_at n cs \<noteq> None"
  "distinct (map fst es) \<Longrightarrow> wf_entries es \<Longrightarrow> q \<in> set (entries p es) \<Longrightarrow>
     \<exists>cs. q = p @ cs \<and> cs \<noteq> [] \<and> node_at (Dir es) cs \<noteq> None"
proof (induction p n and p es arbitrary: q and q rule: entries_node_entries.induct)
  case (1 p b)
  then show ?case by simp
next
  case (2 p es)
  then show ?case by simp
next
  case (3 p)
  then show ?case by simp
next
  case (4 p e es)
  from "4.prems" have d: "distinct (map fst es)" and w: "wf_entries es"
    and we: "wf_node (snd e)" and fresh: "fst e \<notin> fst ` set es"
    by auto
  from "4.prems"(3) consider
      (here) "q = p @ [fst e]"
    | (below) "q \<in> set (entries_node (p @ [fst e]) (snd e))"
    | (later) "q \<in> set (entries p es)"
    by auto
  then show ?case
  proof cases
    case here
    then show ?thesis by (intro exI [of _ "[fst e]"]) simp
  next
    case below
    from "4.IH"(1) [OF we below] obtain cs where
      cs: "q = (p @ [fst e]) @ cs" "cs \<noteq> []" "node_at (snd e) cs \<noteq> None"
      by blast
    then show ?thesis by (intro exI [of _ "fst e # cs"]) simp
  next
    case later
    from "4.IH"(2) [OF d w later] obtain cs where
      cs: "q = p @ cs" "cs \<noteq> []" "node_at (Dir es) cs \<noteq> None"
      by blast
    from cs(2) obtain c cs' where c: "cs = c # cs'" by (cases cs) auto
    with cs(3) have "map_of es c \<noteq> None" by (auto split: option.splits)
    then have "c \<in> fst ` set es" by (simp add: map_of_eq_None_iff)
    with fresh have "c \<noteq> fst e" by blast
    with cs c show ?thesis by (intro exI [of _ cs]) (cases e, auto)
  qed
qed

lemma endswith_last: "endswith s suf \<Longrightarrow> suf \<noteq> [] \<Longrightarrow> last s = last suf"
proof -
  assume a: "endswith s suf" and b: "suf \<noteq> []"
  then have "s = take (length s - length suf) s @ suf"
    by (metis append_take_drop_id endswith_def)
  with b show ?thesis by (metis last_appendR)
qed

lemma html_not_htm: "endswith s (lit ''.html'') \<Longrightarrow> \<not> endswith s (lit ''.htm'')"
proof
  assume "endswith s (lit ''.html'')" and "endswith s (lit ''.htm'')"
  then have "last (lit ''.html'') = last (lit ''.htm'')"
    using endswith_last [of s "lit ''.html''"] endswith_last [of s "lit ''.htm''"]
    by (simp add: lit_simps)
  then show False by (simp add: lit_simps)
qed

lemma html_files_set:
  "set (rglob_node (\<lambda>name. endswith name (lit ''.html'')) [d] (Dir es) @
        rglob_node (\<lambda>name. endswith name (lit ''.htm'')) [d] (Dir es)) =
     {q \<in> set (entries [d] es). html_like (last q)}"
  by (auto simp: rglob_sets(1) html_like_def simp del: rglob_node.simps)

lemma render_outcome_not_stop: "render_outcome V R html b \<noteq> NoEntryPointFound"
  by (simp add: render_outcome_def split: sum.splits)

lemma convert_zip:
  "uploaded R = Some (name, data) \<Longrightarrow> lower (path_suffix name) = lit ''.zip'' \<Longrightarrow>
   fst (convert V fs R) =
     (case fst (zip_branch V fs data) of
        Inl stopped \<Rightarrow> stopped
      | Inr (html_text, base_url) \<Rightarrow> render_outcome V R html_text base_url)"
  by (simp add: convert_def Let_def split: prod.splits)

lemma zip_branch_none:
  "find_html_in_zip V (fs(lit ''html2pdf_'' @ zip_random V @ lit ''.zip'' \<mapsto> File data))
     (lit ''html2pdf_'' @ zip_random V @ lit ''.zip'') = (Inr None, fs2) \<Longrightarrow>
   fst (zip_branch V fs data) = Inl NoEntryPointFound"
  by (simp add: zip_branch_def Let_def)

lemma zip_branch_some:
  "find_html_in_zip V (fs(lit ''html2pdf_'' @ zip_random V @ lit ''.zip'' \<mapsto> File data))
     (lit ''html2pdf_'' @ zip_random V @ lit ''.zip'') = (Inr (Some q), fs2) \<Longrightarrow>
   exists_path fs2 q \<Longrightarrow>
   fst (zip_branch V fs data) \<noteq> Inl NoEntryPointFound"
  by (simp add: zip_branch_def Let_def split: sum.splits)

lemma exists_path_below:
  "cs \<noteq> [] \<Longrightarrow> node_at (Dir es) cs \<noteq> None \<Longrightarrow> exists_path (fs(d \<mapsto> Dir es)) ([d] @ cs)"
  by (simp add: exists_path_def fs_node_def)

lemma suffix_site: "lower (path_suffix (lit ''site.zip'')) = lit ''.zip''"
  by (simp add: lower_def path_suffix_def path_name_def rfind_def lit_simps Let_def)

lemma find_docs:
  "find_html_in_zip (demo_env docs_entries)
       (Map.empty(lit ''html2pdf_abc.zip'' \<mapsto> File [0x50, 0x4B])) (lit ''html2pdf_abc.zip'') =
    (Inr (Some [lit ''html2pdf_zip_xyz'', lit ''docs'', lit ''a.html'']),
     [lit ''html2pdf_abc.zip'' \<mapsto> File [0x50, 0x4B],
      lit ''html2pdf_zip_xyz'' \<mapsto> Dir docs_entries])"
  by (simp add: find_html_in_zip_def demo_env_def Let_def exists_path_root rglob_root
      docs_entries_def endswith_def lit_simps)

lemma find_pages:
  "find_html_in_zip (demo_env pages_entries)
       (Map.empty(lit ''html2pdf_abc.zip'' \<mapsto> File [0x50, 0x4B])) (lit ''html2pdf_abc.zip'') =
    (Inr (Some [lit ''html2pdf_zip_xyz'', lit ''pages.html'']),
     [lit ''html2pdf_abc.zip'' \<mapsto> File [0x50, 0x4B],
      lit ''html2pdf_zip_xyz'' \<mapsto> Dir pages_entries])"
  by (simp add: find_html_in_zip_def demo_env_def Let_def exists_path_root rglob_root
      pages_entries_def endswith_def lit_simps)

lemma uploaded_demo: "uploaded demo_request = Some (lit ''site.zip'', [0x50, 0x4B])"
  by (simp add: demo_request_def)

lemma convert_pages:
  "fst (convert (demo_env pages_entries) Map.empty demo_request) = Uncaught IsADirectoryError"
proof -
  have "fst (zip_branch (demo_env pages_entries) Map.empty [0x50, 0x4B]) =
      Inl (Uncaught IsADirectoryError)"
    unfolding zip_branch_def using find_pages
    by (simp add: demo_env_def Let_def lit_simps exists_path_def fs_node_def
        pages_entries_def)
  then show ?thesis
    by (simp add: convert_zip [OF uploaded_demo suffix_site])
qed

lemma demo_env_sel:
  "unzip (demo_env es) b = Inr es" "dir_random (demo_env es) = lit ''xyz''"
  "zip_random (demo_env es) = lit ''abc''"
  "demo_env es\<lparr>unzip := \<lambda>b. Inr es'\<rparr> = demo_env es'"
  by (simp_all add: demo_env_def)

text \<open>
  Claim C7. When the extracted archive has an entry named \<open>index.html\<close> at its root,
  \<open>find_html_in_zip\<close> returns that entry, whatever else the archive holds and in
  whatever order its entries are listed.
\<close>

theorem index_html_preferred:
  "fs zip_path = Some (File data) \<Longrightarrow> unzip V data = Inr es \<Longrightarrow>
   lit ''index.html'' \<in> fst ` set es \<Longrightarrow>
   fst (find_html_in_zip V fs zip_path) =
     Inr (Some [lit ''html2pdf_zip_'' @ dir_random V, lit ''index.html'']) \<and>
   (\<forall>es'. set es' = set es \<longrightarrow>
      fst (find_html_in_zip (V\<lparr>unzip := \<lambda>b. Inr es'\<rparr>) fs zip_path) =
        Inr (Some [lit ''html2pdf_zip_'' @ dir_random V, lit ''index.html'']))"
  by (simp add: find_html_in_zip_extracted Let_def)

theorem index_html_preferred_witness:
  "[lit ''html2pdf_abc.zip'' \<mapsto> File [0x50, 0x4B]] (lit ''html2pdf_abc.zip'') =
     Some (File [0x50, 0x4B]) \<and>
   unzip (demo_env site_entries) [0x50, 0x4B] = Inr site_entries \<and>
   lit ''index.html'' \<in> fst ` set site_entries \<and>
   fst (find_html_in_zip (demo_env site_entries)
          [lit ''html2pdf_abc.zip'' \<mapsto> File [0x50, 0x4B]] (lit ''html2pdf_abc.zip'')) =
     Inr (Some [lit ''html2pdf_zip_xyz'', lit ''index.html'']) \<and>
   fst (find_html_in_zip (demo_env (rev site_entries))
          [lit ''html2pdf_abc.zip'' \<mapsto> File [0x50, 0x4B]] (lit ''html2pdf_abc.zip'')) =
     Inr (Some [lit ''html2pdf_zip_xyz'', lit ''index.html''])"
proof -
  have h1: "[lit ''html2pdf_abc.zip'' \<mapsto> File [0x50, 0x4B]] (lit ''html2pdf_abc.zip'') =
     Some (File [0x50, 0x4B])" by simp
  have h2: "unzip (demo_env site_entries) [0x50, 0x4B] = Inr site_entries"
    by (simp add: demo_env_sel)
  have h3: "lit ''index.html'' \<in> fst ` set site_entries"
    by (simp add: site_entries_def)
  from index_html_preferred [of "[lit ''html2pdf_abc.zip'' \<mapsto> File [0x50, 0x4B]]"
      "lit ''html2pdf_abc.zip''" "[0x50, 0x4B]" "demo_env site_entries" site_entries,
      OF h1 h2 h3] h1 h2 h3
  show ?thesis
    by (simp add: demo_env_sel lit_simps)
qed

text \<open>
  What the code decides on. For a well-formed extracted archive without \<open>index.html\<close>
  at its root: when some entry, file or directory at any depth, has a name ending in
  \<open>.html\<close> or \<open>.htm\<close>, \<open>find_html_in_zip\<close> returns such an entry; and the
  conversion ends with \<open>NoEntryPointFound\<close> exactly when no file and no directory has
  such a name.
\<close>

lemma entry_point_found_iff:
  assumes "uploaded R = Some (name, data)" and "lower (path_suffix name) = lit ''.zip''"
    and "unzip V data = Inr es" and "wf_node (Dir es)"
    and "lit ''index.html'' \<notin> fst ` set es"
  shows
    "((\<exists>q\<in>set (entries [lit ''html2pdf_zip_'' @ dir_random V] es). html_like (last q)) \<longrightarrow>
      (\<exists>q\<in>set (entries [lit ''html2pdf_zip_'' @ dir_random V] es). html_like (last q) \<and>
         fst (find_html_in_zip V
                (fs(lit ''html2pdf_'' @ zip_random V @ lit ''.zip'' \<mapsto> File data))
                (lit ''html2pdf_'' @ zip_random V @ lit ''.zip'')) = Inr (Some q))) \<and>
     (fst (convert V fs R) = NoEntryPointFound \<longleftrightarrow>
      \<not> (\<exists>q\<in>set (entries [lit ''html2pdf_zip_'' @ dir_random V] es). html_like (last q)))"
proof -
  define d where "d = lit ''html2pdf_zip_'' @ dir_random V"
  define tmp where "tmp = lit ''html2pdf_'' @ zip_random V @ lit ''.zip''"
  define fs1 where "fs1 = fs(tmp \<mapsto> File data)"
  define H where "H = rglob_node (\<lambda>name. endswith name (lit ''.html'')) [d] (Dir es) @
                      rglob_node (\<lambda>name. endswith name (lit ''.htm'')) [d] (Dir es)"
  have H_set: "set H = {q \<in> set (entries [d] es). html_like (last q)}"
    unfolding H_def by (rule html_files_set)
  have "fs1 tmp = Some (File data)" by (simp add: fs1_def)
  from find_html_in_zip_extracted [of fs1 tmp data V es, OF this assms(3)] assms(5)
  have found: "find_html_in_zip V fs1 tmp =
      (Inr (case H of [] \<Rightarrow> None | f # _ \<Rightarrow> Some f), fs1(d \<mapsto> Dir es))"
    by (simp add: Let_def H_def d_def del: rglob_node.simps)
  have conv: "fst (convert V fs R) =
     (case fst (zip_branch V fs data) of
        Inl stopped \<Rightarrow> stopped
      | Inr (html_text, base_url) \<Rightarrow> render_outcome V R html_text base_url)"
    using assms(1,2) by (rule convert_zip)
  show ?thesis
  proof (cases H)
    case Nil
    with H_set have none: "\<not> (\<exists>q\<in>set (entries [d] es). html_like (last q))" by auto
    from found Nil have "fst (zip_branch V fs data) = Inl NoEntryPointFound"
      by (intro zip_branch_none [of V fs data "fs1(d \<mapsto> Dir es)"])
        (simp add: fs1_def tmp_def)
    with conv none show ?thesis unfolding d_def by simp
  next
    case (Cons q qs)
    then have "q \<in> set H" by simp
    with H_set have qin: "q \<in> set (entries [d] es)" and qh: "html_like (last q)" by auto
    from assms(4) have "distinct (map fst es)" "wf_entries es" by simp_all
    from entries_exist(2) [OF this qin] obtain cs where
      cs: "q = [d] @ cs" "cs \<noteq> []" "node_at (Dir es) cs \<noteq> None" by blast
    then have ex: "exists_path (fs1(d \<mapsto> Dir es)) q"
      using exists_path_below [of cs es fs1 d] by simp
    from found Cons have f: "find_html_in_zip V fs1 tmp = (Inr (Some q), fs1(d \<mapsto> Dir es))"
      by simp
    then have "fst (zip_branch V fs data) \<noteq> Inl NoEntryPointFound"
      using ex by (intro zip_branch_some [of V fs data q "fs1(d \<mapsto> Dir es)"])
        (simp_all add: fs1_def tmp_def)
    then have "fst (convert V fs R) \<noteq> NoEntryPointFound"
      unfolding conv
      by (auto simp: zip_branch_def Let_def render_outcome_not_stop
          split: sum.splits prod.splits option.splits if_splits)
    with qin qh f show ?thesis
      unfolding d_def fs1_def tmp_def by auto
  qed
qed

text \<open>
  Claim C8 (the code does otherwise). Without \<open>index.html\<close> at the root the conversion
  is to end with \<open>NoEntryPointFound\<close> exactly when the archive holds no HTML file. In
  the archive whose only member is \<open>pages.html/inner.txt\<close> no file's name ends in
  \<open>.html\<close> or \<open>.htm\<close>; \<open>rglob\<close> matches the directory \<open>pages.html\<close>,
  \<open>find_html_in_zip\<close> returns it, and the conversion ends with the
  \<open>IsADirectoryError\<close> of \<open>read_text\<close>, which no handler catches.
\<close>

theorem directory_taken_as_entry:
  "files [lit ''html2pdf_zip_xyz''] pages_entries =
     [[lit ''html2pdf_zip_xyz'', lit ''pages.html'', lit ''inner.txt'']] \<and>
   \<not> html_like (lit ''inner.txt'') \<and>
   lit ''index.html'' \<notin> fst ` set pages_entries \<and>
   fst (find_html_in_zip (demo_env pages_entries)
          [lit ''html2pdf_abc.zip'' \<mapsto> File [0x50, 0x4B]] (lit ''html2pdf_abc.zip'')) =
     Inr (Some [lit ''html2pdf_zip_xyz'', lit ''pages.html'']) \<and>
   fst (convert (demo_env pages_entries) Map.empty demo_request) =
     Uncaught IsADirectoryError"
  using find_pages convert_pages
  by (simp add: pages_entries_def html_like_def endswith_def lit_simps)

text \<open>
  Claim C10. For an extracted archive without \<open>index.html\<close> at its root in which some
  entry's name ends in \<open>.html\<close>, the entry returned ends in \<open>.html\<close> and not in
  \<open>.htm\<close>, also when entries ending in \<open>.htm\<close> are listed before it.
\<close>

theorem html_before_htm:
  assumes "fs zip_path = Some (File data)" and "unzip V data = Inr es"
    and "lit ''index.html'' \<notin> fst ` set es"
    and "\<exists>q\<in>set (entries [lit ''html2pdf_zip_'' @ dir_random V] es).
           endswith (last q) (lit ''.html'')"
  shows "\<exists>q. fst (find_html_in_zip V fs zip_path) = Inr (Some q) \<and>
           q \<in> set (entries [lit ''html2pdf_zip_'' @ dir_random V] es) \<and>
           endswith (last q) (lit ''.html'') \<and> \<not> endswith (last q) (lit ''.htm'')"
proof -
  define d where "d = lit ''html2pdf_zip_'' @ dir_random V"
  define hs where "hs = rglob_node (\<lambda>name. endswith name (lit ''.html'')) [d] (Dir es)"
  define ms where "ms = rglob_node (\<lambda>name. endswith name (lit ''.htm'')) [d] (Dir es)"
  have hs_set: "set hs = {q \<in> set (entries [d] es). endswith (last q) (lit ''.html'')}"
    by (simp add: hs_def rglob_sets(1) del: rglob_node.simps)
  with assms(4) have "hs \<noteq> []" by (auto simp: d_def)
  then obtain q qs where q: "hs = q # qs" by (cases hs) auto
  then have "q \<in> set hs" by simp
  with hs_set have qin: "q \<in> set (entries [d] es)" and qh: "endswith (last q) (lit ''.html'')"
    by auto
  have "fst (find_html_in_zip V fs zip_path) = Inr (Some q)"
    using assms(1-3) q
    by (simp add: find_html_in_zip_extracted Let_def hs_def d_def del: rglob_node.simps)
  with qin qh html_not_htm [OF qh] show ?thesis
    unfolding d_def by blast
qed

theorem html_before_htm_witness:
  "[lit ''html2pdf_abc.zip'' \<mapsto> File [0x50, 0x4B]] (lit ''html2pdf_abc.zip'') =
     Some (File [0x50, 0x4B]) \<and>
   unzip (demo_env docs_entries) [0x50, 0x4B] = Inr docs_entries \<and>
   lit ''index.html'' \<notin> fst ` set docs_entries \<and>
   [lit ''html2pdf_zip_xyz'', lit ''notes.htm''] \<in>
     set (entries [lit ''html2pdf_zip_xyz''] docs_entries) \<and>
   [lit ''html2pdf_zip_xyz'', lit ''docs'', lit ''a.html''] \<in>
     set (entries [lit ''html2pdf_zip_xyz''] docs_entries) \<and>
   fst (find_html_in_zip (demo_env docs_entries)
          [lit ''html2pdf_abc.zip'' \<mapsto> File [0x50, 0x4B]] (lit ''html2pdf_abc.zip'')) =
     Inr (Some [lit ''html2pdf_zip_xyz'', lit ''docs'', lit ''a.html''])"
proof -
  have h1: "[lit ''html2pdf_abc.zip'' \<mapsto> File [0x50, 0x4B]] (lit ''html2pdf_abc.zip'') =
     Some (File [0x50, 0x4B])" by simp
  have h2: "unzip (demo_env docs_entries) [0x50, 0x4B] = Inr docs_entries"
    by (simp add: demo_env_sel)
  have h3: "lit ''index.html'' \<notin> fst ` set docs_entries"
    by (simp add: docs_entries_def lit_simps)
  have e1: "[lit ''html2pdf_zip_xyz'', lit ''notes.htm''] \<in>
     set (entries [lit ''html2pdf_zip_xyz''] docs_entries)"
    and e2: "[lit ''html2pdf_zip_xyz'', lit ''docs'', lit ''a.html''] \<in>
     set (entries [lit ''html2pdf_zip_xyz''] docs_entries)"
    by (simp_all add: docs_entries_def)
  have h4: "\<exists>q\<in>set (entries [lit ''html2pdf_zip_'' @ dir_random (demo_env docs_entries)]
                      docs_entries). endswith (last q) (lit ''.html'')"
    using e2 by (intro bexI [of _ "[lit ''html2pdf_zip_xyz'', lit ''docs'', lit ''a.html'']"])
      (simp_all add: demo_env_sel endswith_def lit_simps)
  from html_before_htm [of "[lit ''html2pdf_abc.zip'' \<mapsto> File [0x50, 0x4B]]"
      "lit ''html2pdf_abc.zip''" "[0x50, 0x4B]" "demo_env docs_entries" docs_entries,
      OF h1 h2 h3 h4] h1 h2 h3 e1 e2 find_docs
  show ?thesis
    by simp
qed

section \<open>Scratch storage after a conversion\<close>

lemma find_html_in_zip_dir:
  "\<exists>es. snd (find_html_in_zip V fs zip_path) = fs(lit ''html2pdf_zip_'' @ dir_random V \<mapsto> Dir es)"
  by (auto simp: find_html_in_zip_def Let_def
      split: option.splits node.splits sum.splits prod.splits)

lemma zip_branch_storage:
  "\<exists>es. snd (zip_branch V fs data) =
     (fs(lit ''html2pdf_'' @ zip_random V @ lit ''.zip'' \<mapsto> File data,
         lit ''html2pdf_zip_'' @ dir_random V \<mapsto> Dir es),
      [lit ''html2pdf_'' @ zip_random V @ lit ''.zip''])"
proof -
  define tmp where "tmp = lit ''html2pdf_'' @ zip_random V @ lit ''.zip''"
  obtain r fs2 where f: "find_html_in_zip V (fs(tmp \<mapsto> File data)) tmp = (r, fs2)"
    by (cases "find_html_in_zip V (fs(tmp \<mapsto> File data)) tmp")
  from find_html_in_zip_dir [of V "fs(tmp \<mapsto> File data)" tmp] f obtain es where
    "fs2 = fs(tmp \<mapsto> File data, lit ''html2pdf_zip_'' @ dir_random V \<mapsto> Dir es)"
    by auto
  with f have "snd (zip_branch V fs data) =
     (fs(tmp \<mapsto> File data, lit ''html2pdf_zip_'' @ dir_random V \<mapsto> Dir es), [tmp])"
    by (simp add: zip_branch_def Let_def tmp_def split: sum.splits option.splits)
  then show ?thesis unfolding tmp_def by blast
qed

lemma convert_zip_storage:
  assumes "uploaded R = Some (name, data)" and "lower (path_suffix name) = lit ''.zip''"
    and "lit ''html2pdf_'' @ zip_random V @ lit ''.zip'' \<noteq> lit ''html2pdf_zip_'' @ dir_random V"
  shows "\<exists>es. snd (convert V fs R) =
     (fs(lit ''html2pdf_'' @ zip_random V @ lit ''.zip'' := None))
       (lit ''html2pdf_zip_'' @ dir_random V \<mapsto> Dir es)"
proof -
  from zip_branch_storage [of V fs data] obtain es where
    z: "snd (zip_branch V fs data) =
     (fs(lit ''html2pdf_'' @ zip_random V @ lit ''.zip'' \<mapsto> File data,
         lit ''html2pdf_zip_'' @ dir_random V \<mapsto> Dir es),
      [lit ''html2pdf_'' @ zip_random V @ lit ''.zip''])"
    by blast
  have "snd (convert V fs R) =
     cleanup (fst (snd (zip_branch V fs data))) (snd (snd (zip_branch V fs data)))"
    using assms(1,2) by (simp add: convert_def Let_def split: prod.splits)
  also have "\<dots> = (fs(lit ''html2pdf_'' @ zip_random V @ lit ''.zip'' := None))
       (lit ''html2pdf_zip_'' @ dir_random V \<mapsto> Dir es)"
    using assms(3) by (auto simp: z os_remove_def fun_upd_twist)
  finally show ?thesis by blast
qed

text \<open>
  Claim C2 (the code does otherwise). After the conversion of an archive that succeeds,
  the temporary copy of the upload is gone, but the directory \<open>find_html_in_zip\<close>
  extracted into is still in the temporary directory, with its contents:
  \<open>cleanup_paths\<close> never receives it. By \<open>convert_zip_storage\<close> this is so on every
  way out of an archive's conversion.
\<close>

theorem extract_dir_left_behind:
  "fst (convert (demo_env site_entries) Map.empty demo_request) =
     Success [0x25, 0x50, 0x44, 0x46] \<and>
   snd (convert (demo_env site_entries) Map.empty demo_request) (lit ''html2pdf_abc.zip'') =
     None \<and>
   snd (convert (demo_env site_entries) Map.empty demo_request) (lit ''html2pdf_zip_xyz'') =
     Some (Dir site_entries)"
proof -
  have up: "uploaded demo_request = Some (lit ''site.zip'', [0x50, 0x4B])"
    by (simp add: demo_request_def)
  have fnd: "find_html_in_zip (demo_env site_entries)
       (Map.empty(lit ''html2pdf_abc.zip'' \<mapsto> File [0x50, 0x4B])) (lit ''html2pdf_abc.zip'') =
    (Inr (Some [lit ''html2pdf_zip_xyz'', lit ''index.html'']),
     [lit ''html2pdf_abc.zip'' \<mapsto> File [0x50, 0x4B],
      lit ''html2pdf_zip_xyz'' \<mapsto> Dir site_entries])"
    by (simp add: find_html_in_zip_def demo_env_def Let_def exists_path_root
        site_entries_def lit_simps)
  have zb: "zip_branch (demo_env site_entries) Map.empty [0x50, 0x4B] =
    (Inr ([60, 112, 62, 120], Some (lit ''file:///tmp/html2pdf_zip_xyz'')),
     [lit ''html2pdf_abc.zip'' \<mapsto> File [0x50, 0x4B],
      lit ''html2pdf_zip_xyz'' \<mapsto> Dir site_entries],
     [lit ''html2pdf_abc.zip''])"
    unfolding zip_branch_def
    using fnd
    by (simp add: demo_env_def Let_def lit_simps exists_path_def fs_node_def
        site_entries_def utf8_char_def)
  have ro: "render_outcome (demo_env site_entries) demo_request html b =
      Success [0x25, 0x50, 0x44, 0x46]" for html b
    by (simp add: render_outcome_def render_call_def render_pdf_def with_block_def
        try_block_def demo_env_def ok_engine_def Let_def split: prod.splits)
  have "convert (demo_env site_entries) Map.empty demo_request =
     (Success [0x25, 0x50, 0x44, 0x46],
      cleanup [lit ''html2pdf_abc.zip'' \<mapsto> File [0x50, 0x4B],
               lit ''html2pdf_zip_xyz'' \<mapsto> Dir site_entries] [lit ''html2pdf_abc.zip''])"
    by (simp add: convert_def up suffix_site zb ro Let_def)
  then show ?thesis
    by (simp add: os_remove_def lit_simps)
qed

end
